theory Spec2Isabelle
  imports Main "HOL-Library.Sublist" "HOL-Library.Char_ord" "HOL-Library.List_Lexorder"
begin

section \<open>Strings as the framework's lookups see them\<close>

text \<open>
  Strings are byte lists. The database lookups \<open>__iexact\<close> and \<open>__icontains\<close> compare
  without regard to case; case folding is modelled on the ASCII letters (what SQLite's LIKE
  does). \<open>strip\<close> is Python's \<open>str.strip()\<close> on the ASCII whitespace characters.
\<close>

definition lower_char :: "char \<Rightarrow> char" where
  "lower_char c =
     (let n = (of_char c :: nat) in if 65 \<le> n \<and> n \<le> 90 then char_of (n + 32) else c)"

definition lower :: "string \<Rightarrow> string" where
  "lower s = map lower_char s"

definition is_space :: "char \<Rightarrow> bool" where
  "is_space c = (let n = (of_char c :: nat) in n = 32 \<or> (9 \<le> n \<and> n \<le> 13) \<or> (28 \<le> n \<and> n \<le> 31))"

definition strip :: "string \<Rightarrow> string" where
  "strip s = rev (dropWhile is_space (rev (dropWhile is_space s)))"

text \<open>\<open>field__iexact=q\<close>: equal up to case.\<close>

definition iexact :: "string \<Rightarrow> string \<Rightarrow> bool" where
  "iexact q s = (lower s = lower q)"

text \<open>\<open>field__icontains=q\<close>: \<open>q\<close> occurs in the field as a contiguous substring, up to case.\<close>

definition icontains :: "string \<Rightarrow> string \<Rightarrow> bool" where
  "icontains q s = sublist (lower q) (lower s)"

section \<open>Entity store\<close>

text \<open>
  \<open>User\<close> is \<open>django.contrib.auth.models.User\<close>; only the columns the handlers touch are
  kept. Password hashing is abstracted: the column holds the value handed to
  \<open>set_password\<close>.
\<close>

record user =
  uid :: nat
  username :: string
  email :: string
  password :: string
  date_joined :: nat

text \<open>
  Modelled from the spec: \<open>models.py\<close> is not among the sources. \<open>UserProfile\<close> is the 1:1
  extension of \<open>User\<close> (address, phone number, optional image reference); \<open>Author\<close> and
  \<open>Category\<close> carry a name and an optional text; \<open>Book\<close> references one author and one
  category. The columns are named after the lookups of \<open>views.py\<close>
  (\<open>userprofile__address\<close>, \<open>author__name\<close>, ...).
\<close>

record user_profile =
  user_id :: nat
  address :: string
  phone_number :: string
  profile_image :: "string option"

record author =
  author_pk :: nat
  author_name :: string
  biography :: string

record category =
  category_pk :: nat
  category_name :: string
  category_description :: string

record book =
  book_pk :: nat
  title :: string
  description :: string
  author_id :: nat
  category_id :: nat
  copies :: nat
  created_at :: nat

record store =
  users :: "user list"
  profiles :: "user_profile list"
  authors :: "author list"
  categories :: "category list"
  books :: "book list"

section \<open>Form/validation layer (\<open>forms.py\<close>)\<close>

datatype validation_error =
    Required
  | MaxLengthExceeded nat nat
  | NullCharacters
  | InvalidEmail
  | ValidationError string

type_synonym querydict = "string \<rightharpoonup> string"

text \<open>
  \<open>forms.CharField(required=..., max_length=...)\<close>: the framework's field cleaning, which
  runs before any \<open>clean_<field>\<close> hook of \<open>forms.py\<close>. A missing key is the empty value;
  the value is stripped (\<open>strip=True\<close> is the default and no field of \<open>forms.py\<close>
  overrides it); an empty value of a required field is rejected; then the validators run.
\<close>

definition CharField_clean :: "bool \<Rightarrow> nat option \<Rightarrow> string option \<Rightarrow> validation_error + string" where
  "CharField_clean required max_length raw =
     (let v = (case raw of None \<Rightarrow> [] | Some s \<Rightarrow> strip s) in
      if v = [] then (if required then Inl Required else Inr v)
      else if char_of (0::nat) \<in> set v then Inl NullCharacters
      else case max_length of
             None \<Rightarrow> Inr v
           | Some m \<Rightarrow> if m < length v then Inl (MaxLengthExceeded m (length v)) else Inr v)"

text \<open>
  \<open>forms.EmailField(required=False)\<close>: a \<open>CharField\<close> whose validator is the framework's
  \<open>EmailValidator\<close>, taken as the parameter \<open>email_ok\<close>.
\<close>

definition EmailField_clean :: "(string \<Rightarrow> bool) \<Rightarrow> bool \<Rightarrow> string option \<Rightarrow> validation_error + string" where
  "EmailField_clean email_ok required raw =
     (case CharField_clean required None raw of
        Inl e \<Rightarrow> Inl e
      | Inr v \<Rightarrow> if v \<noteq> [] \<and> \<not> email_ok v then Inl InvalidEmail else Inr v)"

text \<open>Python truthiness of \<open>cleaned_data.get(key)\<close>: \<open>None\<close> and the empty string are false.\<close>

fun truthy :: "string option \<Rightarrow> bool" where
  "truthy None = False"
| "truthy (Some s) = (s \<noteq> [])"

text \<open>
  \<open>UserForm.clean_username\<close>:
  \<open>User.objects.filter(username__iexact=username).exclude(id=self.instance.id if
  self.instance else None).exists()\<close>. \<open>exclude(id=None)\<close> removes the rows whose id is
  NULL, that is none.
\<close>

definition exclude_id :: "nat option \<Rightarrow> user list \<Rightarrow> user list" where
  "exclude_id i us = (case i of None \<Rightarrow> us | Some k \<Rightarrow> filter (\<lambda>u. uid u \<noteq> k) us)"

definition duplicate_username :: validation_error where
  "duplicate_username = ValidationError ''A user with that username already exists.''"

definition UserForm_clean_username :: "user list \<Rightarrow> user option \<Rightarrow> string \<Rightarrow> validation_error + string" where
  "UserForm_clean_username us instance uname =
     (if exclude_id (map_option uid instance) (filter (\<lambda>u. iexact uname (username u)) us) \<noteq> []
      then Inl duplicate_username
      else Inr uname)"

text \<open>\<open>SimpleRegisterForm.clean_username\<close>: the same lookup with no exclusion.\<close>

definition SimpleRegisterForm_clean_username :: "user list \<Rightarrow> string \<Rightarrow> validation_error + string" where
  "SimpleRegisterForm_clean_username us uname =
     (if filter (\<lambda>u. iexact uname (username u)) us \<noteq> []
      then Inl duplicate_username
      else Inr uname)"

text \<open>
  \<open>UserForm.clean\<close> and \<open>SimpleRegisterForm.clean\<close> (the same body): the form-wide check on
  \<open>cleaned_data\<close>, from which a field that failed its own cleaning is absent.
\<close>

definition passwords_dont_match :: validation_error where
  "passwords_dont_match = ValidationError ''Passwords don't match''"

definition UserForm_clean :: "querydict \<Rightarrow> validation_error + querydict" where
  "UserForm_clean cleaned_data =
     (let password = cleaned_data ''password'';
          password_confirm = cleaned_data ''password_confirm''
      in if truthy password \<and> truthy password_confirm \<and> password \<noteq> password_confirm
         then Inl passwords_dont_match
         else Inr cleaned_data)"

definition SimpleRegisterForm_clean :: "querydict \<Rightarrow> validation_error + querydict" where
  "SimpleRegisterForm_clean cleaned_data =
     (let password = cleaned_data ''password'';
          password_confirm = cleaned_data ''password_confirm''
      in if truthy password \<and> truthy password_confirm \<and> password \<noteq> password_confirm
         then Inl passwords_dont_match
         else Inr cleaned_data)"

text \<open>
  A bound form after \<open>full_clean()\<close>: the cleaned data and the errors, each under its field
  name (\<open>__all__\<close> for the errors of \<open>clean()\<close>). \<open>is_valid()\<close> is "no errors".
\<close>

record bound_form =
  cleaned_data :: querydict
  errors :: "(string \<times> validation_error) list"

definition is_valid :: "bound_form \<Rightarrow> bool" where
  "is_valid f = (errors f = [])"

text \<open>
  One step of \<open>_clean_fields()\<close>: a field that cleans enters \<open>cleaned_data\<close>, one that
  fails is recorded in \<open>errors\<close> and stays out of \<open>cleaned_data\<close>.
\<close>

definition clean_field :: "string \<Rightarrow> validation_error + string \<Rightarrow> bound_form \<Rightarrow> bound_form" where
  "clean_field name r f =
     (case r of
        Inl e \<Rightarrow> f\<lparr>errors := errors f @ [(name, e)]\<rparr>
      | Inr v \<Rightarrow> f\<lparr>cleaned_data := (cleaned_data f)(name \<mapsto> v)\<rparr>)"

text \<open>\<open>_clean_form()\<close>: \<open>clean()\<close> runs whatever the fields did; its error goes under \<open>__all__\<close>.\<close>

definition clean_form :: "(querydict \<Rightarrow> validation_error + querydict) \<Rightarrow> bound_form \<Rightarrow> bound_form" where
  "clean_form clean f =
     (case clean (cleaned_data f) of
        Inl e \<Rightarrow> f\<lparr>errors := errors f @ [(''__all__'', e)]\<rparr>
      | Inr cd \<Rightarrow> f\<lparr>cleaned_data := cd\<rparr>)"

definition unbound :: bound_form where
  "unbound = \<lparr>cleaned_data = Map.empty, errors = []\<rparr>"

text \<open>Sequencing of a field's own cleaning with its \<open>clean_<field>\<close> hook.\<close>

definition and_then :: "validation_error + string \<Rightarrow> (string \<Rightarrow> validation_error + string) \<Rightarrow> validation_error + string" where
  "and_then r hook = (case r of Inl e \<Rightarrow> Inl e | Inr v \<Rightarrow> hook v)"

text \<open>\<open>UserForm(data, instance=...)\<close> after \<open>full_clean()\<close>; the fields in declaration order.\<close>

definition UserForm :: "(string \<Rightarrow> bool) \<Rightarrow> user list \<Rightarrow> user option \<Rightarrow> querydict \<Rightarrow> bound_form" where
  "UserForm email_ok us instance data =
     clean_form UserForm_clean
       (clean_field ''password_confirm'' (CharField_clean False None (data ''password_confirm''))
         (clean_field ''password'' (CharField_clean False None (data ''password''))
           (clean_field ''email'' (EmailField_clean email_ok False (data ''email''))
             (clean_field ''username''
                (and_then (CharField_clean True (Some 150) (data ''username''))
                          (UserForm_clean_username us instance))
                unbound))))"

text \<open>\<open>SimpleRegisterForm(data)\<close> after \<open>full_clean()\<close>: both password fields are required.\<close>

definition SimpleRegisterForm :: "(string \<Rightarrow> bool) \<Rightarrow> user list \<Rightarrow> querydict \<Rightarrow> bound_form" where
  "SimpleRegisterForm email_ok us data =
     clean_form SimpleRegisterForm_clean
       (clean_field ''password_confirm'' (CharField_clean True None (data ''password_confirm''))
         (clean_field ''password'' (CharField_clean True None (data ''password''))
           (clean_field ''email'' (EmailField_clean email_ok False (data ''email''))
             (clean_field ''username''
                (and_then (CharField_clean True (Some 150) (data ''username''))
                          (SimpleRegisterForm_clean_username us))
                unbound))))"

section \<open>Pagination (\<open>django.core.paginator\<close>)\<close>

text \<open>
  Every list and search view builds \<open>Paginator(queryset, 10)\<close> and calls
  \<open>paginator.get_page(request.GET.get('page'))\<close>. The page parameter is the raw string of
  the query string, or \<open>None\<close> when it is absent; \<open>validate_number\<close> converts it with
  Python's \<open>int()\<close>: surrounding whitespace, an optional sign, decimal digits with single
  underscores between them.
\<close>

definition is_digit :: "char \<Rightarrow> bool" where
  "is_digit c = (let n = (of_char c :: nat) in 48 \<le> n \<and> n \<le> 57)"

fun valid_body :: "string \<Rightarrow> bool" where
  "valid_body [] = False"
| "valid_body [c] = is_digit c"
| "valid_body (c # d # cs) =
     (is_digit c \<and> (if d = CHR ''_'' then valid_body cs else valid_body (d # cs)))"

definition digits_value :: "string \<Rightarrow> int" where
  "digits_value ds =
     foldl (\<lambda>acc c. if c = CHR ''_'' then acc else 10 * acc + (int (of_char c) - 48)) 0 ds"

definition parse_unsigned :: "string \<Rightarrow> int option" where
  "parse_unsigned ds = (if valid_body ds then Some (digits_value ds) else None)"

definition parse_int :: "string \<Rightarrow> int option" where
  "parse_int s =
     (case strip s of
        [] \<Rightarrow> None
      | c # cs \<Rightarrow>
          if c = CHR ''-'' then map_option uminus (parse_unsigned cs)
          else if c = CHR ''+'' then parse_unsigned cs
          else parse_unsigned (c # cs))"

record 'a page =
  page_num :: int
  object_list :: "'a list"

text \<open>
  \<open>Paginator.num_pages\<close> with \<open>orphans=0\<close> and \<open>allow_empty_first_page=True\<close>:
  \<open>ceil(max(1, count) / per_page)\<close>.
\<close>

definition num_pages :: "'a list \<Rightarrow> nat \<Rightarrow> int" where
  "num_pages xs per_page = - ((- max 1 (int (length xs))) div int per_page)"

datatype page_error = PageNotAnInteger | EmptyPage

definition validate_number :: "'a list \<Rightarrow> nat \<Rightarrow> string option \<Rightarrow> page_error + int" where
  "validate_number xs per_page number =
     (case Option.bind number parse_int of
        None \<Rightarrow> Inl PageNotAnInteger
      | Some n \<Rightarrow>
          if n < 1 then Inl EmptyPage
          else if num_pages xs per_page < n then Inl EmptyPage
          else Inr n)"

text \<open>
  \<open>Paginator.page(n)\<close> for a valid \<open>n\<close>: the slice \<open>object_list[bottom:top]\<close> with
  \<open>bottom = (n - 1) * per_page\<close> and \<open>top = min(bottom + per_page, count)\<close>.
\<close>

definition page :: "'a list \<Rightarrow> nat \<Rightarrow> int \<Rightarrow> 'a page" where
  "page xs per_page n =
     (let bottom = (n - 1) * int per_page;
          top = (if int (length xs) \<le> bottom + int per_page then int (length xs)
                 else bottom + int per_page)
      in \<lparr>page_num = n, object_list = take (nat (top - bottom)) (drop (nat bottom) xs)\<rparr>)"

text \<open>
  \<open>Paginator.get_page\<close>: \<open>PageNotAnInteger\<close> falls back to page 1, \<open>EmptyPage\<close> (a number
  below 1 as well as one beyond the last page) to the last page.
\<close>

definition get_page :: "'a list \<Rightarrow> nat \<Rightarrow> string option \<Rightarrow> 'a page" where
  "get_page xs per_page number =
     (case validate_number xs per_page number of
        Inr n \<Rightarrow> page xs per_page n
      | Inl PageNotAnInteger \<Rightarrow> page xs per_page 1
      | Inl EmptyPage \<Rightarrow> page xs per_page (num_pages xs per_page))"

section \<open>Requests and responses\<close>

datatype http_method = Get | Post

text \<open>
  \<open>req_user\<close> is the id of the session's user, \<open>None\<close> for the anonymous user.
\<close>

record request =
  req_method :: http_method
  req_user :: "nat option"
  GET :: querydict
  POST :: querydict
  FILES :: querydict

text \<open>\<open>request.GET.get(key, default)\<close>.\<close>

definition get_or :: "querydict \<Rightarrow> string \<Rightarrow> string \<Rightarrow> string" where
  "get_or d k dflt = (case d k of None \<Rightarrow> dflt | Some v \<Rightarrow> v)"

text \<open>
  What a read-only view answers: the redirect of \<open>@login_required\<close> for an anonymous
  request, or the rendered template with its context.
\<close>

datatype 'c rendered = RedirectToLogin | Rendered string 'c

text \<open>\<open>order_by('-field')\<close>: descending; the order among equal keys is the store's own.\<close>

definition order_by_desc :: "('a \<Rightarrow> nat) \<Rightarrow> 'a list \<Rightarrow> 'a list" where
  "order_by_desc f xs = rev (sort_key f xs)"






section \<open>Query/search layer (\<open>views.py\<close>)\<close>

text \<open>
  A lookup that spans the reverse relation \<open>userprofile__...\<close> joins each user row with
  its profile rows; a user without a profile keeps one row whose profile columns are NULL
  (\<open>LEFT OUTER JOIN\<close>), and no condition on a NULL column holds, so the same rows serve the
  lookup that stands alone (\<open>INNER JOIN\<close>).
\<close>

definition join_userprofile :: "user_profile list \<Rightarrow> user list \<Rightarrow> (user \<times> user_profile option) list" where
  "join_userprofile ps us =
     concat (map (\<lambda>u. case filter (\<lambda>p. user_id p = uid u) ps of
                         [] \<Rightarrow> [(u, None)]
                       | q # qs \<Rightarrow> map (\<lambda>p. (u, Some p)) (q # qs)) us)"

definition null_icontains :: "string \<Rightarrow> string option \<Rightarrow> bool" where
  "null_icontains q v = (case v of None \<Rightarrow> False | Some x \<Rightarrow> icontains q x)"

definition userprofile__address :: "user \<times> user_profile option \<Rightarrow> string option" where
  "userprofile__address r = map_option address (snd r)"

definition userprofile__phone_number :: "user \<times> user_profile option \<Rightarrow> string option" where
  "userprofile__phone_number r = map_option phone_number (snd r)"

text \<open>
  The forward references \<open>author__name\<close> and \<open>category__name\<close> of a book: the name of the
  referenced row (every book references an existing author and category).
\<close>

definition author__name :: "store \<Rightarrow> book \<Rightarrow> string option" where
  "author__name s b = map_option author_name (find (\<lambda>a. author_pk a = author_id b) (authors s))"

definition category__name :: "store \<Rightarrow> book \<Rightarrow> string option" where
  "category__name s b =
     map_option category_name (find (\<lambda>c. category_pk c = category_id b) (categories s))"

text \<open>The queryset of \<open>user_search\<close>, lines 164 to 181, before it is paginated.\<close>

definition user_search_qs :: "string \<Rightarrow> string \<Rightarrow> store \<Rightarrow> user list" where
  "user_search_qs query filter_type s =
     (let users_qs = order_by_desc date_joined (users s) in
      if query \<noteq> [] then
        if filter_type = ''username'' then
          filter (\<lambda>u. icontains query (username u)) users_qs
        else if filter_type = ''email'' then
          filter (\<lambda>u. icontains query (email u)) users_qs
        else if filter_type = ''address'' then
          map fst (filter (\<lambda>r. null_icontains query (userprofile__address r))
                     (join_userprofile (profiles s) users_qs))
        else
          map fst (filter (\<lambda>r. icontains query (username (fst r)) \<or>
                                icontains query (email (fst r)) \<or>
                                null_icontains query (userprofile__address r) \<or>
                                null_icontains query (userprofile__phone_number r))
                     (join_userprofile (profiles s) users_qs))
      else users_qs)"

text \<open>The context of \<open>user.html\<close> and \<open>book.html\<close>: the page and \<open>search_query\<close>.\<close>

definition user_search :: "request \<Rightarrow> store \<Rightarrow> (user page \<times> string) rendered" where
  "user_search request s =
     (if req_user request = None then RedirectToLogin
      else let query = strip (get_or (GET request) ''q'' []);
               filter_type = get_or (GET request) ''filter'' ''all'';
               users_qs = user_search_qs query filter_type s;
               page_number = GET request ''page''
           in Rendered ''user.html'' (get_page users_qs 10 page_number, query))"

definition book_search_qs :: "string \<Rightarrow> string \<Rightarrow> store \<Rightarrow> book list" where
  "book_search_qs query filter_type s =
     (let books_qs = order_by_desc created_at (books s) in
      if query \<noteq> [] then
        if filter_type = ''title'' then
          filter (\<lambda>b. icontains query (title b)) books_qs
        else if filter_type = ''author'' then
          filter (\<lambda>b. null_icontains query (author__name s b)) books_qs
        else if filter_type = ''category'' then
          filter (\<lambda>b. null_icontains query (category__name s b)) books_qs
        else
          filter (\<lambda>b. icontains query (title b) \<or>
                       icontains query (description b) \<or>
                       null_icontains query (author__name s b) \<or>
                       null_icontains query (category__name s b)) books_qs
      else books_qs)"

definition book_search :: "request \<Rightarrow> store \<Rightarrow> (book page \<times> string) rendered" where
  "book_search request s =
     (if req_user request = None then RedirectToLogin
      else let query = strip (get_or (GET request) ''q'' []);
               filter_type = get_or (GET request) ''filter'' ''all'';
               books_qs = book_search_qs query filter_type s;
               page_number = GET request ''page''
           in Rendered ''book.html'' (get_page books_qs 10 page_number, query))"

text \<open>
  Global search. The context of \<open>search_results.html\<close>; a result that was not computed is
  \<open>None\<close>. \<open>.distinct()\<close> removes duplicate rows, \<open>[:10]\<close> keeps the first ten.
\<close>

record search_context =
  ctx_query :: string
  ctx_search_type :: string
  ctx_books :: "book list option"
  ctx_users :: "user list option"
  ctx_authors :: "author list option"
  ctx_categories :: "category list option"

definition search_books :: "string \<Rightarrow> store \<Rightarrow> book list" where
  "search_books query s =
     remdups (filter (\<lambda>b. icontains query (title b) \<or>
                          icontains query (description b) \<or>
                          null_icontains query (author__name s b) \<or>
                          null_icontains query (category__name s b)) (books s))"

definition search_users :: "string \<Rightarrow> store \<Rightarrow> user list" where
  "search_users query s =
     remdups (map fst (filter (\<lambda>r. icontains query (username (fst r)) \<or>
                                   icontains query (email (fst r)) \<or>
                                   null_icontains query (userprofile__address r))
                         (join_userprofile (profiles s) (users s))))"

definition search_authors :: "string \<Rightarrow> store \<Rightarrow> author list" where
  "search_authors query s = remdups (filter (\<lambda>a. icontains query (author_name a)) (authors s))"

definition search_categories :: "string \<Rightarrow> store \<Rightarrow> category list" where
  "search_categories query s =
     remdups (filter (\<lambda>c. icontains query (category_name c)) (categories s))"

definition search :: "request \<Rightarrow> store \<Rightarrow> search_context rendered" where
  "search request s =
     (if req_user request = None then RedirectToLogin
      else let query = strip (get_or (GET request) ''q'' []);
               search_type = get_or (GET request) ''type'' ''all''
           in Rendered ''search_results.html''
                \<lparr>ctx_query = query,
                 ctx_search_type = search_type,
                 ctx_books =
                   (if query \<noteq> [] \<and> search_type \<in> set [''all'', ''books'']
                    then Some (take 10 (search_books query s)) else None),
                 ctx_users =
                   (if query \<noteq> [] \<and> search_type \<in> set [''all'', ''users'']
                    then Some (take 10 (search_users query s)) else None),
                 ctx_authors =
                   (if query \<noteq> [] \<and> search_type \<in> set [''all'', ''authors'']
                    then Some (take 10 (search_authors query s)) else None),
                 ctx_categories =
                   (if query \<noteq> [] \<and> search_type \<in> set [''all'', ''categories'']
                    then Some (take 10 (search_categories query s)) else None)\<rparr>)"

section \<open>Writes to the entity store\<close>

text \<open>
  An exception that a write can raise: the store's \<open>IntegrityError\<close>, or any other
  exception with its text (\<open>str(e)\<close>).
\<close>

datatype exn = IntegrityError | Exception string

definition str_exn :: "exn \<Rightarrow> string" where
  "str_exn e = (case e of IntegrityError \<Rightarrow> ''IntegrityError'' | Exception m \<Rightarrow> m)"

text \<open>The statements a handler sends to the store; each can fail.\<close>

datatype db_step = InsertUser | GetOrCreateProfile | SaveProfile | SaveUser | DeleteUser | Login

text \<open>
  What a handler takes from outside \<open>views.py\<close> and \<open>forms.py\<close>: the framework's email
  validator, the validation that \<open>UserProfileForm\<close> derives from the missing \<open>models.py\<close>
  (the errors it reports for the posted data and files), the generated password, the
  clock, and which statements fail in the store, with what exception.
\<close>

record env =
  email_ok :: "string \<Rightarrow> bool"
  profile_errors :: "querydict \<Rightarrow> querydict \<Rightarrow> (string \<times> validation_error) list"
  random_password :: string
  now :: nat
  faults :: "db_step \<Rightarrow> exn option"

type_synonym 'a db = "store \<Rightarrow> (exn + 'a) \<times> store"

text \<open>
  \<open>with transaction.atomic():\<close> the block's writes are kept when it ends normally and
  undone when an exception leaves it; the exception goes on to the handler's \<open>except\<close>.
\<close>

definition atomic :: "'a db \<Rightarrow> 'a db" where
  "atomic body s = (case body s of (Inl e, s') \<Rightarrow> (Inl e, s) | (Inr a, s') \<Rightarrow> (Inr a, s'))"

definition fresh_id :: "user list \<Rightarrow> nat" where
  "fresh_id us = Suc (foldr max (map uid us) 0)"

text \<open>\<open>UserManager.normalize_email\<close>: the domain part in lower case.\<close>

definition normalize_email :: "string \<Rightarrow> string" where
  "normalize_email mail =
     (if CHR ''@'' \<in> set mail
      then let t = strip mail;
               domain_part = rev (takeWhile (\<lambda>c. c \<noteq> CHR ''@'') (rev t));
               email_name = take (length t - length domain_part - 1) t
           in email_name @ ''@'' @ lower domain_part
      else mail)"

text \<open>
  \<open>User.objects.create_user(username, email, password)\<close>: an empty username is a
  \<open>ValueError\<close>; the insert violates the unique constraint when the username is taken.
\<close>

definition create_user :: "env \<Rightarrow> string \<Rightarrow> string \<Rightarrow> string \<Rightarrow> user db" where
  "create_user e uname mail pw s =
     (if uname = [] then (Inl (Exception ''The given username must be set''), s)
      else case faults e InsertUser of
             Some x \<Rightarrow> (Inl x, s)
           | None \<Rightarrow>
               if uname \<in> set (map username (users s)) then (Inl IntegrityError, s)
               else let u = \<lparr>uid = fresh_id (users s), username = uname,
                              email = normalize_email mail, password = pw,
                              date_joined = now e\<rparr>
                    in (Inr u, s\<lparr>users := users s @ [u]\<rparr>))"

text \<open>
  \<open>UserProfile.objects.get_or_create(user=user)\<close>: the profile of the user, inserted with
  empty columns when there is none.
\<close>

definition get_or_create :: "env \<Rightarrow> user \<Rightarrow> user_profile db" where
  "get_or_create e u s =
     (case faults e GetOrCreateProfile of
        Some x \<Rightarrow> (Inl x, s)
      | None \<Rightarrow>
          (case filter (\<lambda>p. user_id p = uid u) (profiles s) of
             [] \<Rightarrow> let p = \<lparr>user_id = uid u, address = [], phone_number = [],
                             profile_image = None\<rparr>
                   in (Inr p, s\<lparr>profiles := profiles s @ [p]\<rparr>)
           | [p] \<Rightarrow> (Inr p, s)
           | p # q # ps \<Rightarrow> (Inl (Exception ''MultipleObjectsReturned''), s)))"

text \<open>\<open>profile.save()\<close> and \<open>user.save()\<close> of a stored row: the row is replaced.\<close>

definition save_profile :: "env \<Rightarrow> user_profile \<Rightarrow> unit db" where
  "save_profile e p s =
     (case faults e SaveProfile of
        Some x \<Rightarrow> (Inl x, s)
      | None \<Rightarrow>
          (Inr (), s\<lparr>profiles := map (\<lambda>q. if user_id q = user_id p then p else q) (profiles s)\<rparr>))"


text \<open>\<open>user.delete()\<close>: the row goes, and with it the profile that references it.\<close>

definition delete :: "env \<Rightarrow> user \<Rightarrow> unit db" where
  "delete e u s =
     (case faults e DeleteUser of
        Some x \<Rightarrow> (Inl x, s)
      | None \<Rightarrow>
          (Inr (), s\<lparr>users := filter (\<lambda>v. uid v \<noteq> uid u) (users s),
                     profiles := filter (\<lambda>p. user_id p \<noteq> uid u) (profiles s)\<rparr>))"

text \<open>\<open>login(request, user)\<close>: touches the store (last login) and can fail there.\<close>

definition login :: "env \<Rightarrow> user \<Rightarrow> unit db" where
  "login e u s = (case faults e Login of Some x \<Rightarrow> (Inl x, s) | None \<Rightarrow> (Inr (), s))"

text \<open>\<open>get_object_or_404(User, pk=pk)\<close>.\<close>

definition get_user :: "store \<Rightarrow> nat \<Rightarrow> user option" where
  "get_user s pk = find (\<lambda>u. uid u = pk) (users s)"

section \<open>Request handlers that write (\<open>views.py\<close>)\<close>

datatype level = Success_level | Error_level | Info_level

datatype response = Redirect string | Render string | Http404 | Unhandled exn

text \<open>
  What a handler leaves behind: the response, the notices queued with \<open>messages\<close>, the
  bound forms handed to the template, the store, and the session's user.
\<close>

record result =
  response :: response
  notices :: "(level \<times> string) list"
  forms :: "bound_form list"
  db :: store
  session :: "nat option"

definition dquote :: string where
  "dquote = [CHR 0x22]"

fun show_nat :: "nat \<Rightarrow> string" where
  "show_nat n = (if n < 10 then [char_of (48 + n)] else show_nat (n div 10) @ [char_of (48 + n mod 10)])"

declare show_nat.simps [simp del]

text \<open>The text of a form error, as \<open>form.errors\<close> lists it.\<close>

definition error_text :: "validation_error \<Rightarrow> string" where
  "error_text x =
     (case x of
        Required \<Rightarrow> ''This field is required.''
      | MaxLengthExceeded m n \<Rightarrow>
          ''Ensure this value has at most '' @ show_nat m @ '' characters (it has '' @ show_nat n @ '').''
      | NullCharacters \<Rightarrow> ''Null characters are not allowed.''
      | InvalidEmail \<Rightarrow> ''Enter a valid email address.''
      | ValidationError m \<Rightarrow> m)"

text \<open>
  \<open>UserProfileForm(request.POST, request.FILES)\<close> after \<open>full_clean()\<close>. The fields are
  \<open>address\<close>, \<open>phone_number\<close> and \<open>profile_image\<close>; what makes one invalid is declared in
  the missing \<open>models.py\<close> and comes from \<open>profile_errors\<close>.
\<close>

definition UserProfileForm :: "env \<Rightarrow> querydict \<Rightarrow> querydict \<Rightarrow> bound_form" where
  "UserProfileForm e data files =
     (let errs = profile_errors e data files;
          bad = set (map fst errs)
      in \<lparr>cleaned_data =
            (\<lambda>k. if k \<in> bad then None
                  else if k = ''address'' \<or> k = ''phone_number'' then Some (strip (get_or data k []))
                  else if k = ''profile_image'' then files k
                  else None),
          errors = errs\<rparr>)"

text \<open>\<open>SimpleRegisterForm.save\<close>.\<close>

definition SimpleRegisterForm_save :: "env \<Rightarrow> bound_form \<Rightarrow> user db" where
  "SimpleRegisterForm_save e form s =
     (case cleaned_data form ''username'' of
        None \<Rightarrow> (Inl (Exception ''KeyError''), s)
      | Some uname \<Rightarrow>
          let mail = get_or (cleaned_data form) ''email'' [] in
          case cleaned_data form ''password'' of
            None \<Rightarrow> (Inl (Exception ''KeyError''), s)
          | Some pw \<Rightarrow> create_user e uname mail pw s)"

text \<open>The block under \<open>transaction.atomic()\<close> in \<open>register\<close>, lines 62 to 67.\<close>

definition register_block :: "env \<Rightarrow> bound_form \<Rightarrow> user db" where
  "register_block e form s =
     (case SimpleRegisterForm_save e form s of
        (Inl x, s1) \<Rightarrow> (Inl x, s1)
      | (Inr u, s1) \<Rightarrow>
          (case get_or_create e u s1 of
             (Inl x, s2) \<Rightarrow> (Inl x, s2)
           | (Inr p, s2) \<Rightarrow>
               (case login e u s2 of
                  (Inl x, s3) \<Rightarrow> (Inl x, s3)
                | (Inr _, s3) \<Rightarrow> (Inr u, s3))))"

definition register :: "env \<Rightarrow> request \<Rightarrow> store \<Rightarrow> result" where
  "register e request s =
     (if req_user request \<noteq> None then
        \<lparr>response = Redirect ''home'', notices = [], forms = [], db = s,
         session = req_user request\<rparr>
      else if req_method request = Post then
        let form = SimpleRegisterForm (email_ok e) (users s) (POST request) in
        if is_valid form then
          (case atomic (register_block e form) s of
             (Inr u, s') \<Rightarrow>
               \<lparr>response = Redirect ''home'',
                notices = [(Success_level, ''Registration successful!'')],
                forms = [], db = s', session = Some (uid u)\<rparr>
           | (Inl IntegrityError, s') \<Rightarrow>
               \<lparr>response = Render ''register.html'',
                notices = [(Error_level, ''Registration failed: Integrity error.'')],
                forms = [form], db = s', session = None\<rparr>
           | (Inl (Exception m), s') \<Rightarrow>
               \<lparr>response = Render ''register.html'',
                notices = [(Error_level, ''Registration failed: '' @ m)],
                forms = [form], db = s', session = None\<rparr>)
        else
          \<lparr>response = Render ''register.html'',
           notices = [(Error_level, ''Please correct the errors below.'')],
           forms = [form], db = s, session = None\<rparr>
      else
        \<lparr>response = Render ''register.html'', notices = [], forms = [unbound], db = s,
         session = None\<rparr>)"

text \<open>
  The notices of the \<open>else\<close> branch of \<open>add_user\<close> and \<open>edit_user\<close>: one per form error,
  \<open>f'User {field}: {e}'\<close> and \<open>f'Profile {field}: {e}'\<close>.
\<close>

definition error_notices :: "string \<Rightarrow> bound_form \<Rightarrow> (level \<times> string) list" where
  "error_notices who form =
     map (\<lambda>(field, x). (Error_level, who @ '' '' @ field @ '': '' @ error_text x)) (errors form)"

text \<open>The block under \<open>transaction.atomic()\<close> in \<open>add_user\<close>, lines 122 to 137.\<close>

definition add_user_block :: "env \<Rightarrow> bound_form \<Rightarrow> bound_form \<Rightarrow> user db" where
  "add_user_block e user_form profile_form s =
     (case cleaned_data user_form ''username'' of
        None \<Rightarrow> (Inl (Exception ''KeyError''), s)
      | Some uname \<Rightarrow>
          let mail = get_or (cleaned_data user_form) ''email'' [];
              pw = (if truthy (cleaned_data user_form ''password'')
                    then get_or (cleaned_data user_form) ''password'' []
                    else random_password e)
          in case create_user e uname mail pw s of
               (Inl x, s1) \<Rightarrow> (Inl x, s1)
             | (Inr u, s1) \<Rightarrow>
                 (case get_or_create e u s1 of
                    (Inl x, s2) \<Rightarrow> (Inl x, s2)
                  | (Inr profile, s2) \<Rightarrow>
                      let profile1 = profile\<lparr>address := get_or (cleaned_data profile_form) ''address'' [],
                                             phone_number := get_or (cleaned_data profile_form) ''phone_number'' []\<rparr>;
                          image = cleaned_data profile_form ''profile_image'';
                          profile2 = (if truthy image then profile1\<lparr>profile_image := image\<rparr>
                                      else profile1)
                      in case save_profile e profile2 s2 of
                           (Inl x, s3) \<Rightarrow> (Inl x, s3)
                         | (Inr _, s3) \<Rightarrow> (Inr u, s3)))"

definition add_user :: "env \<Rightarrow> request \<Rightarrow> store \<Rightarrow> result" where
  "add_user e request s =
     (if req_user request = None then
        \<lparr>response = Redirect ''login'', notices = [], forms = [], db = s, session = None\<rparr>
      else if req_method request = Post then
        let user_form = UserForm (email_ok e) (users s) None (POST request);
            profile_form = UserProfileForm e (POST request) (FILES request)
        in if is_valid user_form \<and> is_valid profile_form then
             (case atomic (add_user_block e user_form profile_form) s of
                (Inr u, s') \<Rightarrow>
                  \<lparr>response = Redirect ''user_list'',
                   notices = [(Success_level,
                               ''User '' @ dquote @ username u @ dquote @ '' created successfully!'')],
                   forms = [], db = s', session = req_user request\<rparr>
              | (Inl IntegrityError, s') \<Rightarrow>
                  \<lparr>response = Render ''user_form.html'',
                   notices = [(Error_level, ''A user with that username or email already exists.'')],
                   forms = [user_form, profile_form], db = s', session = req_user request\<rparr>
              | (Inl (Exception m), s') \<Rightarrow>
                  \<lparr>response = Render ''user_form.html'',
                   notices = [(Error_level, ''Error creating user: '' @ m)],
                   forms = [user_form, profile_form], db = s', session = req_user request\<rparr>)
           else
             \<lparr>response = Render ''user_form.html'',
              notices = error_notices ''User'' user_form @ error_notices ''Profile'' profile_form,
              forms = [user_form, profile_form], db = s, session = req_user request\<rparr>
      else
        \<lparr>response = Render ''user_form.html'', notices = [], forms = [unbound, unbound], db = s,
         session = req_user request\<rparr>)"




definition delete_user :: "env \<Rightarrow> request \<Rightarrow> nat \<Rightarrow> store \<Rightarrow> result" where
  "delete_user e request pk s =
     (if req_user request = None then
        \<lparr>response = Redirect ''login'', notices = [], forms = [], db = s, session = None\<rparr>
      else case get_user s pk of
        None \<Rightarrow>
          \<lparr>response = Http404, notices = [], forms = [], db = s, session = req_user request\<rparr>
      | Some u \<Rightarrow>
          if req_user request = Some (uid u) then
            \<lparr>response = Redirect ''user_list'',
             notices = [(Error_level, ''You can't delete the currently logged in user.'')],
             forms = [], db = s, session = req_user request\<rparr>
          else if req_method request = Post then
            (case delete e u s of
               (Inr _, s') \<Rightarrow>
                 \<lparr>response = Redirect ''user_list'',
                  notices = [(Success_level,
                              ''User '' @ dquote @ username u @ dquote @ '' deleted successfully!'')],
                  forms = [], db = s', session = req_user request\<rparr>
             | (Inl x, s') \<Rightarrow>
                 \<lparr>response = Redirect ''user_list'',
                  notices = [(Error_level, ''Error deleting user: '' @ str_exn x)],
                  forms = [], db = s', session = req_user request\<rparr>)
          else
            \<lparr>response = Render ''user_confirm_delete.html'', notices = [], forms = [], db = s,
             session = req_user request\<rparr>)"

section \<open>Sample data\<close>

definition admin_user :: user where
  "admin_user = \<lparr>uid = 1, username = ''admin'', email = ''a@x.org'', password = ''pw'',
                  date_joined = 5\<rparr>"

definition bob_user :: user where
  "bob_user = \<lparr>uid = 2, username = ''bob'', email = ''b@x.org'', password = ''pw'',
                date_joined = 7\<rparr>"

definition bob_profile :: user_profile where
  "bob_profile = \<lparr>user_id = 2, address = ''Main St'', phone_number = ''555-0100'',
                   profile_image = None\<rparr>"

definition sample_store :: store where
  "sample_store = \<lparr>users = [admin_user, bob_user], profiles = [bob_profile], authors = [],
                    categories = [], books = []\<rparr>"




definition plain_env :: env where
  "plain_env = \<lparr>email_ok = (\<lambda>m. CHR ''@'' \<in> set m), profile_errors = (\<lambda>d f. []),
                 random_password = ''r4nd0m'', now = 9, faults = (\<lambda>_. None)\<rparr>"

definition delete_request :: "http_method \<Rightarrow> request" where
  "delete_request m = \<lparr>req_method = m, req_user = Some 1, GET = Map.empty, POST = Map.empty,
                        FILES = Map.empty\<rparr>"

definition register_request :: "string \<Rightarrow> string \<Rightarrow> string \<Rightarrow> request" where
  "register_request u p c =
     \<lparr>req_method = Post, req_user = None, GET = Map.empty,
      POST = [''username'' \<mapsto> u, ''password'' \<mapsto> p, ''password_confirm'' \<mapsto> c],
      FILES = Map.empty\<rparr>"


definition failing_env :: "db_step \<Rightarrow> env" where
  "failing_env st = plain_env\<lparr>faults := (\<lambda>x. if x = st then Some (Exception ''store failure'') else None)\<rparr>"

definition add_request :: request where
  "add_request =
     \<lparr>req_method = Post, req_user = Some 1, GET = Map.empty,
      POST = [''username'' \<mapsto> ''carol'', ''email'' \<mapsto> ''c@x.org'', ''password'' \<mapsto> ''abc'',
              ''password_confirm'' \<mapsto> ''abc'', ''address'' \<mapsto> ''1 Road''],
      FILES = Map.empty\<rparr>"

definition search_request :: "string \<Rightarrow> string \<Rightarrow> request" where
  "search_request q f =
     \<lparr>req_method = Get, req_user = Some 1, GET = [''q'' \<mapsto> q, ''filter'' \<mapsto> f, ''type'' \<mapsto> f],
      POST = Map.empty, FILES = Map.empty\<rparr>"

definition herbert :: author where
  "herbert = \<lparr>author_pk = 1, author_name = ''Herbert'', biography = []\<rparr>"

definition scifi :: category where
  "scifi = \<lparr>category_pk = 1, category_name = ''SciFi'', category_description = []\<rparr>"

definition dune :: book where
  "dune = \<lparr>book_pk = 1, title = ''Dune'', description = ''Desert planet'', author_id = 1,
            category_id = 1, copies = 3, created_at = 4\<rparr>"

definition library_store :: store where
  "library_store = sample_store\<lparr>authors := [herbert], categories := [scifi], books := [dune]\<rparr>"


section \<open>Auxiliary facts\<close>

lemmas string_eval =
  lower_def lower_char_def char_of_def bit_Suc_0_iff iexact_def icontains_def sublist_code
  strip_def is_space_def

lemma exclude_id_nonempty:
  "exclude_id i xs \<noteq> [] \<longleftrightarrow> (\<exists>u\<in>set xs. \<forall>k. i = Some k \<longrightarrow> uid u \<noteq> k)"
proof (cases i)
  case None
  then show ?thesis by (cases xs) (auto simp: exclude_id_def)
next
  case (Some k)
  then show ?thesis by (auto simp: exclude_id_def filter_empty_conv)
qed

lemma clean_field_username_errors:
  "(''username'', x) \<in> set (errors (clean_form cl (clean_field ''password_confirm'' r4
      (clean_field ''password'' r3 (clean_field ''email'' r2 (clean_field ''username'' r1 unbound))))))
   \<longleftrightarrow> r1 = Inl x"
  by (auto simp: clean_form_def clean_field_def unbound_def split: sum.splits)

section \<open>Username uniqueness\<close>

text \<open>
  C1. The username hooks of both forms reject the cleaned username with "A user with that
  username already exists." exactly when a stored user has that username up to case; on
  creation and registration every stored user counts, on edit every stored user but the
  one being edited (compared by id), so the edited user's own name, in any casing, is
  never the reason. A hook that does not reject returns the username unchanged. In the
  bound forms the error is listed under \<open>username\<close> exactly when the field cleaned (to the
  stripped value, non-empty and at most 150 characters) and the hook rejected that value.
\<close>

theorem clean_username_duplicate_iff:
  "(UserForm_clean_username us None name = Inl duplicate_username
      \<longleftrightarrow> (\<exists>u\<in>set us. lower (username u) = lower name)) \<and>
   (SimpleRegisterForm_clean_username us name = Inl duplicate_username
      \<longleftrightarrow> (\<exists>u\<in>set us. lower (username u) = lower name)) \<and>
   (UserForm_clean_username us (Some i) name = Inl duplicate_username
      \<longleftrightarrow> (\<exists>u\<in>set us. uid u \<noteq> uid i \<and> lower (username u) = lower name)) \<and>
   (UserForm_clean_username us inst name \<in> {Inl duplicate_username, Inr name}) \<and>
   (SimpleRegisterForm_clean_username us name \<in> {Inl duplicate_username, Inr name}) \<and>
   ((''username'', duplicate_username) \<in> set (errors (UserForm ev us inst data))
      \<longleftrightarrow> (\<exists>cleaned. CharField_clean True (Some 150) (data ''username'') = Inr cleaned \<and>
            (\<exists>u\<in>set us. (\<forall>i. inst = Some i \<longrightarrow> uid u \<noteq> uid i) \<and>
                         lower (username u) = lower cleaned))) \<and>
   ((''username'', duplicate_username) \<in> set (errors (SimpleRegisterForm ev us data))
      \<longleftrightarrow> (\<exists>cleaned. CharField_clean True (Some 150) (data ''username'') = Inr cleaned \<and>
            (\<exists>u\<in>set us. lower (username u) = lower cleaned)))"
proof -
  have a: "UserForm_clean_username us j n = Inl duplicate_username
      \<longleftrightarrow> (\<exists>u\<in>set us. (\<forall>i. j = Some i \<longrightarrow> uid u \<noteq> uid i) \<and> lower (username u) = lower n)" for j n
    by (cases j) (auto simp: UserForm_clean_username_def exclude_id_nonempty iexact_def)
  have b: "SimpleRegisterForm_clean_username us n = Inl duplicate_username
      \<longleftrightarrow> (\<exists>u\<in>set us. lower (username u) = lower n)" for n
    by (auto simp: SimpleRegisterForm_clean_username_def filter_empty_conv iexact_def)
  have c: "UserForm_clean_username us inst name \<in> {Inl duplicate_username, Inr name}"
    by (simp add: UserForm_clean_username_def)
  have d: "SimpleRegisterForm_clean_username us name \<in> {Inl duplicate_username, Inr name}"
    by (simp add: SimpleRegisterForm_clean_username_def)
  have cf: "CharField_clean True (Some 150) r \<noteq> Inl duplicate_username" for r
    by (auto simp: CharField_clean_def Let_def duplicate_username_def split: option.splits)
  have e: "and_then (CharField_clean True (Some 150) r) hook = Inl duplicate_username
      \<longleftrightarrow> (\<exists>cleaned. CharField_clean True (Some 150) r = Inr cleaned \<and>
             hook cleaned = Inl duplicate_username)" for r hook
    using cf [of r] by (cases "CharField_clean True (Some 150) r") (auto simp: and_then_def)
  show ?thesis
    using a [of None name] a [of "Some i" name] b [of name] c d
    by (simp add: UserForm_def SimpleRegisterForm_def clean_field_username_errors e a b)
qed

theorem clean_username_duplicate_iff_witness:
  "UserForm_clean_username [admin_user] None ''ADMIN'' = Inl duplicate_username \<and>
   SimpleRegisterForm_clean_username [admin_user] ''Admin'' = Inl duplicate_username \<and>
   UserForm_clean_username [admin_user] (Some admin_user) ''ADMIN'' \<noteq> Inl duplicate_username"
proof -
  note t = clean_username_duplicate_iff [where us = "[admin_user]" and i = admin_user]
  have "UserForm_clean_username [admin_user] None ''ADMIN'' = Inl duplicate_username"
    using t [where name = "''ADMIN''", THEN conjunct1]
    by (simp add: admin_user_def string_eval)
  moreover have "SimpleRegisterForm_clean_username [admin_user] ''Admin'' = Inl duplicate_username"
    using t [where name = "''Admin''", THEN conjunct2, THEN conjunct1]
    by (simp add: admin_user_def string_eval)
  moreover have "UserForm_clean_username [admin_user] (Some admin_user) ''ADMIN'' \<noteq> Inl duplicate_username"
    using t [where name = "''ADMIN''", THEN conjunct2, THEN conjunct2, THEN conjunct1]
    by simp
  ultimately show ?thesis by simp
qed

section \<open>Pagination\<close>






lemma get_page_absent: "get_page xs 10 None = page xs 10 1"
  by (simp add: get_page_def validate_number_def)

lemma length_order_by_desc [simp]: "length (order_by_desc f xs) = length xs"
  by (simp add: order_by_desc_def)

lemma num_pages_length: "length xs = length ys \<Longrightarrow> num_pages xs k = num_pages ys k"
  by (simp add: num_pages_def)












section \<open>Deleting a user\<close>

lemma get_user_Some: "get_user s pk = Some u \<Longrightarrow> uid u = pk \<and> u \<in> set (users s)"
  by (auto simp: get_user_def find_Some_iff)

lemma get_user_deleted: "get_user (s\<lparr>users := filter (\<lambda>v. uid v \<noteq> pk) (users s), profiles := ps\<rparr>) pk = None"
  by (simp add: get_user_def find_None_iff)

text \<open>
  C4. A request, GET or POST, by which an authenticated user asks to delete their own
  existing account is answered with the redirect to the user list and the notice "You
  can't delete the currently logged in user."; the store is unchanged and the account is
  still there. A POST that names a different existing user removes that user's row, when
  the store carries out the delete.
\<close>

theorem delete_user_rejects_self:
  "(req_user request = Some me \<and> get_user s me = Some u \<longrightarrow>
      delete_user e request me s =
        \<lparr>response = Redirect ''user_list'',
         notices = [(Error_level, ''You can't delete the currently logged in user.'')],
         forms = [], db = s, session = Some me\<rparr> \<and>
      get_user (db (delete_user e request me s)) me = Some u) \<and>
   (req_user request = Some me \<and> pk \<noteq> me \<and> get_user s pk = Some v \<and>
    req_method request = Post \<and> faults e DeleteUser = None \<longrightarrow>
      response (delete_user e request pk s) = Redirect ''user_list'' \<and>
      users (db (delete_user e request pk s)) = filter (\<lambda>w. uid w \<noteq> pk) (users s) \<and>
      get_user (db (delete_user e request pk s)) pk = None \<and>
      v \<notin> set (users (db (delete_user e request pk s))))"
proof -
  have 1: "delete_user e request me s =
        \<lparr>response = Redirect ''user_list'',
         notices = [(Error_level, ''You can't delete the currently logged in user.'')],
         forms = [], db = s, session = Some me\<rparr> \<and>
      get_user (db (delete_user e request me s)) me = Some u"
    if "req_user request = Some me" "get_user s me = Some u"
    using that get_user_Some [OF that(2)] by (simp add: delete_user_def)
  have 2: "response (delete_user e request pk s) = Redirect ''user_list'' \<and>
      users (db (delete_user e request pk s)) = filter (\<lambda>w. uid w \<noteq> pk) (users s) \<and>
      get_user (db (delete_user e request pk s)) pk = None \<and>
      v \<notin> set (users (db (delete_user e request pk s)))"
    if "req_user request = Some me" "pk \<noteq> me" "get_user s pk = Some v"
       "req_method request = Post" "faults e DeleteUser = None"
    using that get_user_Some [OF that(3)]
    by (auto simp: delete_user_def delete_def get_user_deleted)
  show ?thesis using 1 2 by blast
qed

theorem delete_user_rejects_self_witness:
  "db (delete_user plain_env (delete_request Post) 1 sample_store) = sample_store \<and>
   db (delete_user plain_env (delete_request Get) 1 sample_store) = sample_store \<and>
   users (db (delete_user plain_env (delete_request Post) 2 sample_store)) = [admin_user]"
proof -
  have g1: "get_user sample_store 1 = Some admin_user"
    by (simp add: get_user_def sample_store_def admin_user_def)
  have g2: "get_user sample_store 2 = Some bob_user"
    by (simp add: get_user_def sample_store_def admin_user_def bob_user_def)
  have r: "req_user (delete_request m) = Some 1" "req_method (delete_request m) = m" for m
    by (simp_all add: delete_request_def)
  have f: "faults plain_env DeleteUser = None"
    by (simp add: plain_env_def)
  have "db (delete_user plain_env (delete_request Post) 1 sample_store) = sample_store"
    using delete_user_rejects_self [of "delete_request Post" 1 sample_store admin_user plain_env, THEN conjunct1]
      r g1 by simp
  moreover have "db (delete_user plain_env (delete_request Get) 1 sample_store) = sample_store"
    using delete_user_rejects_self [of "delete_request Get" 1 sample_store admin_user plain_env, THEN conjunct1]
      r g1 by simp
  moreover have "users (db (delete_user plain_env (delete_request Post) 2 sample_store)) = [admin_user]"
    using delete_user_rejects_self [of "delete_request Post" 1 sample_store admin_user plain_env 2 bob_user, THEN conjunct2]
      r g2 f by (simp add: sample_store_def admin_user_def bob_user_def)
  ultimately show ?thesis by simp
qed

section \<open>Password confirmation on registration\<close>











section \<open>Password change without confirmation\<close>














section \<open>Creating a user with its profile\<close>

lemma fresh_id_greater: "u \<in> set us \<Longrightarrow> uid u < fresh_id us"
  by (induction us) (auto simp: fresh_id_def)

lemma fresh_id_new: "fresh_id us \<notin> uid ` set us"
  using fresh_id_greater by fastforce

lemma create_user_Inr:
  assumes "create_user e n m p s = (Inr u, s1)"
  shows "faults e InsertUser = None \<and> s1 = s\<lparr>users := users s @ [u]\<rparr> \<and>
         uid u = fresh_id (users s)"
  using assms
  by (auto simp: create_user_def Let_def split: if_splits option.splits)

lemma get_or_create_Inr:
  assumes "get_or_create e u s = (Inr p, s2)"
  shows "faults e GetOrCreateProfile = None \<and> users s2 = users s \<and> user_id p = uid u \<and>
         p \<in> set (profiles s2)"
proof -
  have f: "faults e GetOrCreateProfile = None"
    using assms by (auto simp: get_or_create_def split: option.splits)
  show ?thesis
  proof (cases "filter (\<lambda>q. user_id q = uid u) (profiles s)")
    case Nil
    then show ?thesis using assms f by (auto simp: get_or_create_def Let_def)
  next
    case (Cons q qs)
    then have "q \<in> set (filter (\<lambda>q. user_id q = uid u) (profiles s))" by simp
    then have q: "user_id q = uid u" "q \<in> set (profiles s)" by simp_all
    show ?thesis
      using assms f Cons q by (cases qs) (auto simp: get_or_create_def)
  qed
qed

lemma save_profile_keeps_keys:
  "map user_id (map (\<lambda>q. if user_id q = user_id p then p else q) ps) = map user_id ps"
  by (induction ps) auto

lemma save_profile_Inr:
  assumes "save_profile e p s = (Inr x, s3)"
  shows "faults e SaveProfile = None \<and> users s3 = users s \<and>
         map user_id (profiles s3) = map user_id (profiles s)"
  using assms
  by (auto simp: save_profile_def save_profile_keeps_keys split: option.splits)

lemma login_Inr:
  assumes "login e u s = (Inr x, s3)"
  shows "faults e Login = None \<and> s3 = s"
  using assms by (auto simp: login_def split: option.splits)


lemma add_user_block_Inr:
  assumes "add_user_block e uf pf s = (Inr u, s')"
  shows "faults e InsertUser = None \<and> faults e GetOrCreateProfile = None \<and>
         faults e SaveProfile = None \<and>
         users s' = users s @ [u] \<and> uid u \<notin> uid ` set (users s) \<and>
         uid u \<in> set (map user_id (profiles s'))"
proof -
  obtain n where n: "cleaned_data uf ''username'' = Some n"
    using assms by (auto simp: add_user_block_def split: option.splits)
  define m where "m = get_or (cleaned_data uf) ''email'' []"
  define p where "p = (if truthy (cleaned_data uf ''password'')
                       then get_or (cleaned_data uf) ''password'' [] else random_password e)"
  obtain v s1 where c: "create_user e n m p s = (Inr v, s1)"
    using assms n
    by (auto simp: add_user_block_def Let_def m_def p_def split: prod.splits sum.splits)
  obtain q s2 where g: "get_or_create e v s1 = (Inr q, s2)"
    using assms n c
    by (auto simp: add_user_block_def Let_def m_def p_def split: prod.splits sum.splits)
  obtain q' x where sp: "save_profile e q' s2 = (Inr x, s')" and vu: "v = u"
    using assms n c g
    by (auto simp: add_user_block_def Let_def m_def p_def split: prod.splits sum.splits)
  note C = create_user_Inr [OF c] and G = get_or_create_Inr [OF g] and S = save_profile_Inr [OF sp]
  have "user_id q \<in> set (map user_id (profiles s2))"
    using G by force
  then have "uid u \<in> set (map user_id (profiles s'))"
    using G S vu by simp
  moreover have "users s' = users s @ [u]"
    using C G S vu by simp
  moreover have "uid u \<notin> uid ` set (users s)"
    using C vu fresh_id_new [of "users s"] by simp
  ultimately show ?thesis using C G S by simp
qed

lemma register_block_Inr:
  assumes "register_block e form s = (Inr u, s')"
  shows "faults e InsertUser = None \<and> faults e GetOrCreateProfile = None \<and>
         faults e Login = None \<and>
         users s' = users s @ [u] \<and> uid u \<notin> uid ` set (users s) \<and>
         uid u \<in> set (map user_id (profiles s'))"
proof -
  obtain v s1 where c: "SimpleRegisterForm_save e form s = (Inr v, s1)"
    using assms
    by (auto simp: register_block_def split: prod.splits sum.splits)
  obtain n m p where c': "create_user e n m p s = (Inr v, s1)"
    using c by (auto simp: SimpleRegisterForm_save_def Let_def split: option.splits)
  obtain q s2 where g: "get_or_create e v s1 = (Inr q, s2)"
    using assms c
    by (auto simp: register_block_def split: prod.splits sum.splits)
  obtain x where l: "login e v s2 = (Inr x, s')" and vu: "v = u"
    using assms c g
    by (auto simp: register_block_def split: prod.splits sum.splits)
  note C = create_user_Inr [OF c'] and G = get_or_create_Inr [OF g] and L = login_Inr [OF l]
  have "user_id q \<in> set (map user_id (profiles s2))"
    using G by force
  then have "uid u \<in> set (map user_id (profiles s'))"
    using G L vu by simp
  moreover have "users s' = users s @ [u]"
    using C G L vu by simp
  moreover have "uid u \<notin> uid ` set (users s)"
    using C vu fresh_id_new [of "users s"] by simp
  ultimately show ?thesis using C G L by simp
qed

lemma atomic_cases:
  "(\<exists>x. atomic body s = (Inl x, s)) \<or> (\<exists>a s'. body s = (Inr a, s') \<and> atomic body s = (Inr a, s'))"
  by (auto simp: atomic_def split: prod.splits sum.splits)

lemma add_user_cases:
  "db (add_user e request s) = s \<or>
   (\<exists>u s'. add_user_block e (UserForm (email_ok e) (users s) None (POST request))
              (UserProfileForm e (POST request) (FILES request)) s = (Inr u, s') \<and>
            db (add_user e request s) = s' \<and>
            response (add_user e request s) = Redirect ''user_list'')"
  using atomic_cases [of "add_user_block e (UserForm (email_ok e) (users s) None (POST request))
              (UserProfileForm e (POST request) (FILES request))" s]
  by (auto simp: add_user_def Let_def split: exn.splits)

lemma register_cases:
  "db (register e request s) = s \<or>
   (\<exists>u s'. register_block e (SimpleRegisterForm (email_ok e) (users s) (POST request)) s
              = (Inr u, s') \<and>
            db (register e request s) = s' \<and>
            response (register e request s) = Redirect ''home'' \<and>
            session (register e request s) = Some (uid u))"
  using atomic_cases [of "register_block e (SimpleRegisterForm (email_ok e) (users s) (POST request))" s]
  by (auto simp: register_def Let_def split: exn.splits)

text \<open>
  Without a failure the sample request creates the user and its profile. The block does
  write before it fails: when the save of the profile fails, the block has already
  inserted the user, and it is \<open>atomic\<close> that undoes the insert.
\<close>

lemma add_user_success_example:
  "response (add_user plain_env add_request sample_store) = Redirect ''user_list'' \<and>
   map username (users (db (add_user plain_env add_request sample_store)))
     = [''admin'', ''bob'', ''carol''] \<and>
   map user_id (profiles (db (add_user plain_env add_request sample_store))) = [2, 3]"
  by code_simp

lemma add_user_block_partial_write_example:
  "fst (add_user_block (failing_env SaveProfile)
          (UserForm (email_ok plain_env) (users sample_store) None (POST add_request))
          (UserProfileForm plain_env (POST add_request) (FILES add_request)) sample_store)
     = Inl (Exception ''store failure'') \<and>
   map username (users (snd (add_user_block (failing_env SaveProfile)
          (UserForm (email_ok plain_env) (users sample_store) None (POST add_request))
          (UserProfileForm plain_env (POST add_request) (FILES add_request)) sample_store)))
     = [''admin'', ''bob'', ''carol'']"
  by code_simp

lemma all_or_nothing:
  assumes "A \<or> (F1 \<and> F2 \<and> F3 \<and> R \<and> E)"
  shows "(A \<or> R \<and> E) \<and> (\<not> F1 \<or> \<not> F2 \<or> \<not> F3 \<longrightarrow> A)"
  using assms by blast

text \<open>
  C2. \<open>add_user\<close> and \<open>register\<close> write the user and its profile all or nothing. After
  either handler the store is exactly the store before the request, or the handler
  answered with its success redirect and the store holds one new user, under a fresh id,
  together with a profile that references it. Whenever a statement of the block fails in
  the store (the insert of the user, the lookup or insert of the profile, the save of the
  profile, the login), the store is the store before the request.
\<close>

theorem user_creation_atomic:
  "(db (add_user e request s) = s \<or>
      response (add_user e request s) = Redirect ''user_list'' \<and>
      (\<exists>u. users (db (add_user e request s)) = users s @ [u] \<and>
           uid u \<notin> uid ` set (users s) \<and>
           uid u \<in> set (map user_id (profiles (db (add_user e request s)))))) \<and>
   (faults e InsertUser \<noteq> None \<or> faults e GetOrCreateProfile \<noteq> None \<or>
    faults e SaveProfile \<noteq> None \<longrightarrow> db (add_user e request s) = s) \<and>
   (db (register e request s) = s \<or>
      response (register e request s) = Redirect ''home'' \<and>
      (\<exists>u. users (db (register e request s)) = users s @ [u] \<and>
           uid u \<notin> uid ` set (users s) \<and>
           uid u \<in> set (map user_id (profiles (db (register e request s)))))) \<and>
   (faults e InsertUser \<noteq> None \<or> faults e GetOrCreateProfile \<noteq> None \<or>
    faults e Login \<noteq> None \<longrightarrow> db (register e request s) = s)"
proof -
  have a: "db (add_user e request s) = s \<or>
      faults e InsertUser = None \<and> faults e GetOrCreateProfile = None \<and>
      faults e SaveProfile = None \<and>
      response (add_user e request s) = Redirect ''user_list'' \<and>
      (\<exists>u. users (db (add_user e request s)) = users s @ [u] \<and>
           uid u \<notin> uid ` set (users s) \<and>
           uid u \<in> set (map user_id (profiles (db (add_user e request s)))))"
    using add_user_cases [of e request s] add_user_block_Inr [of e _ _ s]
    by (elim disjE exE conjE) (simp, metis)
  have r: "db (register e request s) = s \<or>
      faults e InsertUser = None \<and> faults e GetOrCreateProfile = None \<and>
      faults e Login = None \<and>
      response (register e request s) = Redirect ''home'' \<and>
      (\<exists>u. users (db (register e request s)) = users s @ [u] \<and>
           uid u \<notin> uid ` set (users s) \<and>
           uid u \<in> set (map user_id (profiles (db (register e request s)))))"
    using register_cases [of e request s] register_block_Inr [of e _ s]
    by (elim disjE exE conjE) (simp, metis)
  note A = all_or_nothing [OF a] and R = all_or_nothing [OF r]
  show ?thesis
    by (rule conjI [OF A [THEN conjunct1] conjI [OF A [THEN conjunct2] R]])
qed

theorem user_creation_atomic_witness:
  "db (add_user (failing_env SaveProfile) add_request sample_store) = sample_store \<and>
   db (register (failing_env Login) (register_request ''carol'' ''abc'' ''abc'') sample_store)
     = sample_store"
proof -
  have f: "faults (failing_env SaveProfile) SaveProfile \<noteq> None"
    "faults (failing_env Login) Login \<noteq> None"
    by (simp_all add: failing_env_def)
  show ?thesis
    using user_creation_atomic [of "failing_env SaveProfile" add_request sample_store]
      user_creation_atomic [of "failing_env Login" "register_request ''carol'' ''abc'' ''abc''" sample_store]
      f
    by blast
qed

section \<open>Searching users\<close>

lemma set_order_by_desc [simp]: "set (order_by_desc f xs) = set xs"
  by (simp add: order_by_desc_def)

lemma distinct_order_by_desc [simp]: "distinct (order_by_desc f xs) = distinct xs"
  by (simp add: order_by_desc_def)

lemma join_userprofile_rows:
  "join_userprofile ps us =
     concat (map (\<lambda>u. if filter (\<lambda>p. user_id p = uid u) ps = [] then [(u, None)]
                        else map (\<lambda>p. (u, Some p)) (filter (\<lambda>p. user_id p = uid u) ps)) us)"
  unfolding join_userprofile_def
  by (rule arg_cong [where f = concat], rule map_cong) (auto split: list.splits)

lemma in_join_userprofile:
  "(u, po) \<in> set (join_userprofile ps us) \<longleftrightarrow>
     u \<in> set us \<and>
     (case po of None \<Rightarrow> (\<forall>p\<in>set ps. user_id p \<noteq> uid u)
               | Some p \<Rightarrow> p \<in> set ps \<and> user_id p = uid u)"
  by (cases po) (auto simp: join_userprofile_rows filter_empty_conv)

lemma user_has_row: "u \<in> set us \<Longrightarrow> \<exists>po. (u, po) \<in> set (join_userprofile ps us)"
proof (cases "\<forall>p\<in>set ps. user_id p \<noteq> uid u")
  case True
  assume "u \<in> set us"
  then have "(u, None) \<in> set (join_userprofile ps us)"
    using True by (simp add: in_join_userprofile)
  then show ?thesis ..
next
  case False
  assume u: "u \<in> set us"
  from False obtain p where "p \<in> set ps" "user_id p = uid u" by auto
  then have "(u, Some p) \<in> set (join_userprofile ps us)"
    using u by (simp add: in_join_userprofile)
  then show ?thesis ..
qed

lemma unique_profile_filter:
  "distinct (map user_id ps) \<Longrightarrow>
   filter (\<lambda>p. user_id p = k) ps = (case find (\<lambda>p. user_id p = k) ps of None \<Rightarrow> [] | Some p \<Rightarrow> [p])"
proof (induction ps)
  case Nil
  then show ?case by simp
next
  case (Cons a ps)
  show ?case
  proof (cases "user_id a = k")
    case True
    then have "k \<notin> user_id ` set ps" using Cons.prems by simp
    then have "\<forall>p\<in>set ps. user_id p \<noteq> k" by blast
    then have "filter (\<lambda>p. user_id p = k) ps = []" by (simp add: filter_empty_conv)
    then show ?thesis using True by simp
  next
    case False
    then show ?thesis using Cons by simp
  qed
qed

lemma join_userprofile_unique:
  assumes "distinct (map user_id ps)"
  shows "join_userprofile ps us = map (\<lambda>u. (u, find (\<lambda>p. user_id p = uid u) ps)) us"
  by (induction us)
     (auto simp: join_userprofile_def unique_profile_filter [OF assms] split: option.splits)

lemma project_joined:
  assumes "distinct (map user_id ps)"
  shows "map fst (filter P (join_userprofile ps us)) =
         filter (\<lambda>u. P (u, find (\<lambda>p. user_id p = uid u) ps)) us"
  by (induction us) (simp_all add: join_userprofile_unique [OF assms])

lemma distinct_uid: "distinct (map uid us) \<Longrightarrow> distinct us"
  by (rule distinct_map [THEN iffD1, THEN conjunct1])


lemma user_search_view:
  assumes "req_user request \<noteq> None"
  shows "user_search request s =
           Rendered ''user.html''
             (get_page (user_search_qs (strip (get_or (GET request) ''q'' []))
                          (get_or (GET request) ''filter'' ''all'') s) 10 (GET request ''page''),
              strip (get_or (GET request) ''q'' []))"
  using assms by (simp add: user_search_def Let_def)

lemma user_search_qs_username:
  "q \<noteq> [] \<Longrightarrow>
   user_search_qs q ''username'' s =
     filter (\<lambda>u. icontains q (username u)) (order_by_desc date_joined (users s))"
  by (simp add: user_search_qs_def)

lemma user_search_qs_all:
  "q \<noteq> [] \<Longrightarrow>
   user_search_qs q ''all'' s =
     map fst (filter (\<lambda>r. icontains q (username (fst r)) \<or> icontains q (email (fst r)) \<or>
                           null_icontains q (userprofile__address r) \<or>
                           null_icontains q (userprofile__phone_number r))
                (join_userprofile (profiles s) (order_by_desc date_joined (users s))))"
  by (simp add: user_search_qs_def)

lemma set_user_search_qs_all:
  assumes "q \<noteq> []"
  shows "set (user_search_qs q ''all'' s) =
           {u \<in> set (users s).
              icontains q (username u) \<or> icontains q (email u) \<or>
              (\<exists>p\<in>set (profiles s). user_id p = uid u \<and>
                 (icontains q (address p) \<or> icontains q (phone_number p)))}"
    (is "?L = ?R")
proof (rule set_eqI)
  fix u
  let ?rows = "join_userprofile (profiles s) (order_by_desc date_joined (users s))"
  let ?P = "\<lambda>r. icontains q (username (fst r)) \<or> icontains q (email (fst r)) \<or>
                 null_icontains q (userprofile__address r) \<or>
                 null_icontains q (userprofile__phone_number r)"
  have L: "u \<in> ?L \<longleftrightarrow> (\<exists>po. (u, po) \<in> set ?rows \<and> ?P (u, po))"
    by (force simp: user_search_qs_all [OF assms])
  show "u \<in> ?L \<longleftrightarrow> u \<in> ?R"
  proof
    assume "u \<in> ?L"
    then obtain po where row: "(u, po) \<in> set ?rows" and P: "?P (u, po)"
      using L by blast
    from row have u: "u \<in> set (users s)"
      by (simp add: in_join_userprofile)
    show "u \<in> ?R"
    proof (cases po)
      case None
      then show ?thesis
        using P u by (auto simp: null_icontains_def userprofile__address_def
            userprofile__phone_number_def)
    next
      case (Some p)
      then have "p \<in> set (profiles s)" "user_id p = uid u"
        using row by (simp_all add: in_join_userprofile)
      then show ?thesis
        using P u Some by (auto simp: null_icontains_def userprofile__address_def
            userprofile__phone_number_def)
    qed
  next
    assume R: "u \<in> ?R"
    then have u: "u \<in> set (order_by_desc date_joined (users s))" by simp
    show "u \<in> ?L"
    proof (cases "\<exists>p\<in>set (profiles s). user_id p = uid u \<and>
                     (icontains q (address p) \<or> icontains q (phone_number p))")
      case True
      then obtain p where p: "p \<in> set (profiles s)" "user_id p = uid u"
        "icontains q (address p) \<or> icontains q (phone_number p)" by blast
      then have "(u, Some p) \<in> set ?rows"
        using u by (simp add: in_join_userprofile)
      moreover have "?P (u, Some p)"
        using p(3) by (auto simp: null_icontains_def userprofile__address_def
            userprofile__phone_number_def)
      ultimately show ?thesis using L by blast
    next
      case False
      then have "icontains q (username u) \<or> icontains q (email u)"
        using R by blast
      moreover obtain po where "(u, po) \<in> set ?rows"
        using user_has_row [OF u] by blast
      ultimately show ?thesis using L by auto
    qed
  qed
qed

lemma distinct_user_search_qs:
  assumes "q \<noteq> []" and "distinct (map uid (users s))" and "distinct (map user_id (profiles s))"
  shows "distinct (user_search_qs q ''username'' s)" and "distinct (user_search_qs q ''all'' s)"
  using assms(1) distinct_uid [OF assms(2)]
  by (simp_all add: user_search_qs_username user_search_qs_all project_joined [OF assms(3)])

text \<open>
  C7. For an authenticated user search whose query \<open>q\<close> (the \<open>q\<close> parameter, stripped) is
  not empty, the page shown is cut from a queryset that, with \<open>filter=username\<close>, holds
  exactly the stored users whose username contains \<open>q\<close> up to case, and with
  \<open>filter=all\<close> (or no filter) exactly the stored users that match \<open>q\<close> up to case in
  the username, the email, or the address or phone number of a profile of theirs. When
  user ids are unique and no user has two profiles, no user occurs twice in either.
\<close>

theorem user_search_results:
  assumes "req_user request \<noteq> None"
    and "strip (get_or (GET request) ''q'' []) = q"
    and "q \<noteq> []"
  shows
   "(GET request ''filter'' = Some ''username'' \<longrightarrow>
       user_search request s =
         Rendered ''user.html''
           (get_page (user_search_qs q ''username'' s) 10 (GET request ''page''), q) \<and>
       set (user_search_qs q ''username'' s) = {u \<in> set (users s). icontains q (username u)}) \<and>
    (GET request ''filter'' = Some ''all'' \<or> GET request ''filter'' = None \<longrightarrow>
       user_search request s =
         Rendered ''user.html''
           (get_page (user_search_qs q ''all'' s) 10 (GET request ''page''), q) \<and>
       set (user_search_qs q ''all'' s) =
         {u \<in> set (users s).
            icontains q (username u) \<or> icontains q (email u) \<or>
            (\<exists>p\<in>set (profiles s). user_id p = uid u \<and>
               (icontains q (address p) \<or> icontains q (phone_number p)))}) \<and>
    (distinct (map uid (users s)) \<and> distinct (map user_id (profiles s)) \<longrightarrow>
       distinct (user_search_qs q ''username'' s) \<and> distinct (user_search_qs q ''all'' s))"
proof -
  note v = user_search_view [OF assms(1), of s, unfolded assms(2)]
  have 1: "user_search request s =
         Rendered ''user.html''
           (get_page (user_search_qs q ''username'' s) 10 (GET request ''page''), q)"
    if "GET request ''filter'' = Some ''username''"
    using v that by (simp add: get_or_def)
  have 2: "set (user_search_qs q ''username'' s) = {u \<in> set (users s). icontains q (username u)}"
    by (auto simp: user_search_qs_username [OF assms(3)])
  have 3: "user_search request s =
         Rendered ''user.html''
           (get_page (user_search_qs q ''all'' s) 10 (GET request ''page''), q)"
    if "GET request ''filter'' = Some ''all'' \<or> GET request ''filter'' = None"
    using v that by (auto simp: get_or_def)
  show ?thesis
    using 1 2 3 set_user_search_qs_all [OF assms(3), of s] distinct_user_search_qs [OF assms(3), of s]
    by blast
qed

theorem user_search_results_witness:
  "user_search (search_request '' ADM '' ''username'') sample_store =
     Rendered ''user.html'' (\<lparr>page_num = 1, object_list = [admin_user]\<rparr>, ''ADM'') \<and>
   distinct (user_search_qs ''555'' ''all'' sample_store)"
proof -
  have a: "req_user (search_request q f) \<noteq> None" for q f
    by (simp add: search_request_def)
  have q1: "strip (get_or (GET (search_request '' ADM '' ''username'')) ''q'' []) = ''ADM''"
    by (simp add: search_request_def get_or_def string_eval)
  have q2: "strip (get_or (GET (search_request ''555'' ''all'')) ''q'' []) = ''555''"
    by (simp add: search_request_def get_or_def string_eval)
  have f: "GET (search_request '' ADM '' ''username'') ''filter'' = Some ''username''"
    by (simp add: search_request_def)
  have e: "get_page (user_search_qs ''ADM'' ''username'' sample_store) 10
             (GET (search_request '' ADM '' ''username'') ''page'') =
           \<lparr>page_num = 1, object_list = [admin_user]\<rparr>"
    by code_simp
  have d: "distinct (map uid (users sample_store)) \<and> distinct (map user_id (profiles sample_store))"
    by (simp add: sample_store_def admin_user_def bob_user_def bob_profile_def)
  have ne: "''ADM'' \<noteq> []" "''555'' \<noteq> []" by simp_all
  from user_search_results [OF a q1 ne(1), of sample_store, THEN conjunct1] f
  have "user_search (search_request '' ADM '' ''username'') sample_store =
         Rendered ''user.html''
           (get_page (user_search_qs ''ADM'' ''username'' sample_store) 10
              (GET (search_request '' ADM '' ''username'') ''page''), ''ADM'')"
    by blast
  then have 1: "user_search (search_request '' ADM '' ''username'') sample_store =
     Rendered ''user.html'' (\<lparr>page_num = 1, object_list = [admin_user]\<rparr>, ''ADM'')"
    by (simp only: e)
  from user_search_results [OF a q2 ne(2), of sample_store, THEN conjunct2, THEN conjunct2] d
  have 2: "distinct (user_search_qs ''555'' ''all'' sample_store)"
    by blast
  show ?thesis using 1 2 by (rule conjI)
qed

section \<open>Unrecognised search filters\<close>

lemma book_search_view:
  assumes "req_user request \<noteq> None"
  shows "book_search request s =
           Rendered ''book.html''
             (get_page (book_search_qs (strip (get_or (GET request) ''q'' []))
                          (get_or (GET request) ''filter'' ''all'') s) 10 (GET request ''page''),
              strip (get_or (GET request) ''q'' []))"
  using assms by (simp add: book_search_def Let_def)

lemma user_search_qs_other:
  assumes "ft \<notin> set [''username'', ''email'', ''address'']"
  shows "user_search_qs q ft s = user_search_qs q ''all'' s"
  using assms by (simp add: user_search_qs_def Let_def)

lemma book_search_qs_other:
  assumes "ft \<notin> set [''title'', ''author'', ''category'']"
  shows "book_search_qs q ft s = book_search_qs q ''all'' s"
  using assms by (simp add: book_search_qs_def Let_def)

lemma book_search_qs_all:
  "q \<noteq> [] \<Longrightarrow>
   book_search_qs q ''all'' s =
     filter (\<lambda>b. icontains q (title b) \<or> icontains q (description b) \<or>
                  null_icontains q (author__name s b) \<or> null_icontains q (category__name s b))
       (order_by_desc created_at (books s))"
  by (simp add: book_search_qs_def)

text \<open>
  C10. An authenticated per-entity search whose \<open>filter\<close> parameter is none of
  \<open>username\<close>, \<open>email\<close>, \<open>address\<close> (users) or none of \<open>title\<close>, \<open>author\<close>,
  \<open>category\<close> (books) renders its page like any other and answers exactly as the same
  request with \<open>filter=all\<close>: for a non-empty query the queryset is the all-fields match
  of that entity.
\<close>

theorem unknown_filter_is_all:
  assumes "req_user request \<noteq> None"
    and "GET request ''filter'' = Some ft"
  shows
   "(ft \<notin> set [''username'', ''email'', ''address''] \<longrightarrow>
       user_search request s = user_search (request\<lparr>GET := (GET request)(''filter'' \<mapsto> ''all'')\<rparr>) s \<and>
       (\<exists>pg. user_search request s = Rendered ''user.html'' pg) \<and>
       (q \<noteq> [] \<longrightarrow>
          user_search_qs q ft s =
            map fst (filter (\<lambda>r. icontains q (username (fst r)) \<or> icontains q (email (fst r)) \<or>
                                  null_icontains q (userprofile__address r) \<or>
                                  null_icontains q (userprofile__phone_number r))
                       (join_userprofile (profiles s) (order_by_desc date_joined (users s)))))) \<and>
    (ft \<notin> set [''title'', ''author'', ''category''] \<longrightarrow>
       book_search request s = book_search (request\<lparr>GET := (GET request)(''filter'' \<mapsto> ''all'')\<rparr>) s \<and>
       (\<exists>pg. book_search request s = Rendered ''book.html'' pg) \<and>
       (q \<noteq> [] \<longrightarrow>
          book_search_qs q ft s =
            filter (\<lambda>b. icontains q (title b) \<or> icontains q (description b) \<or>
                         null_icontains q (author__name s b) \<or>
                         null_icontains q (category__name s b))
              (order_by_desc created_at (books s))))"
proof -
  let ?r = "request\<lparr>GET := (GET request)(''filter'' \<mapsto> ''all'')\<rparr>"
  have r: "req_user ?r \<noteq> None" using assms(1) by simp
  have g: "get_or (GET request) ''filter'' ''all'' = ft" "get_or (GET ?r) ''filter'' ''all'' = ''all''"
    "get_or (GET ?r) ''q'' [] = get_or (GET request) ''q'' []" "GET ?r ''page'' = GET request ''page''"
    using assms(2) by (simp_all add: get_or_def)
  have u: "user_search request s = user_search ?r s \<and>
       (\<exists>pg. user_search request s = Rendered ''user.html'' pg) \<and>
       (q \<noteq> [] \<longrightarrow>
          user_search_qs q ft s =
            map fst (filter (\<lambda>r. icontains q (username (fst r)) \<or> icontains q (email (fst r)) \<or>
                                  null_icontains q (userprofile__address r) \<or>
                                  null_icontains q (userprofile__phone_number r))
                       (join_userprofile (profiles s) (order_by_desc date_joined (users s)))))"
    if "ft \<notin> set [''username'', ''email'', ''address'']"
    unfolding user_search_view [OF assms(1)] user_search_view [OF r] g
      user_search_qs_other [OF that]
    by (simp add: user_search_qs_all)
  have b: "book_search request s = book_search ?r s \<and>
       (\<exists>pg. book_search request s = Rendered ''book.html'' pg) \<and>
       (q \<noteq> [] \<longrightarrow>
          book_search_qs q ft s =
            filter (\<lambda>b. icontains q (title b) \<or> icontains q (description b) \<or>
                         null_icontains q (author__name s b) \<or>
                         null_icontains q (category__name s b))
              (order_by_desc created_at (books s)))"
    if "ft \<notin> set [''title'', ''author'', ''category'']"
    unfolding book_search_view [OF assms(1)] book_search_view [OF r] g
      book_search_qs_other [OF that]
    by (simp add: book_search_qs_all)
  show ?thesis using u b by blast
qed

theorem unknown_filter_is_all_witness:
  "user_search (search_request ''555'' ''phone'') sample_store =
     Rendered ''user.html'' (\<lparr>page_num = 1, object_list = [bob_user]\<rparr>, ''555'') \<and>
   book_search (search_request ''herb'' ''isbn'') library_store =
     Rendered ''book.html'' (\<lparr>page_num = 1, object_list = [dune]\<rparr>, ''herb'')"
proof -
  have a': "req_user (search_request ''herb'' ''isbn'') \<noteq> None"
    "GET (search_request ''herb'' ''isbn'') ''filter'' = Some ''isbn''"
    by (simp_all add: search_request_def)
  have n': "''isbn'' \<notin> set [''title'', ''author'', ''category'']" by simp
  have e': "book_search ((search_request ''herb'' ''isbn'')
              \<lparr>GET := (GET (search_request ''herb'' ''isbn''))(''filter'' \<mapsto> ''all'')\<rparr>) library_store =
           Rendered ''book.html'' (\<lparr>page_num = 1, object_list = [dune]\<rparr>, ''herb'')"
    by code_simp
  from unknown_filter_is_all [OF a', of library_store, THEN conjunct2] n'
  have "book_search (search_request ''herb'' ''isbn'') library_store =
        book_search ((search_request ''herb'' ''isbn'')
              \<lparr>GET := (GET (search_request ''herb'' ''isbn''))(''filter'' \<mapsto> ''all'')\<rparr>) library_store"
    by blast
  then have 2: "book_search (search_request ''herb'' ''isbn'') library_store =
     Rendered ''book.html'' (\<lparr>page_num = 1, object_list = [dune]\<rparr>, ''herb'')"
    by (simp only: e')
  have a: "req_user (search_request ''555'' ''phone'') \<noteq> None"
    "GET (search_request ''555'' ''phone'') ''filter'' = Some ''phone''"
    by (simp_all add: search_request_def)
  have n: "''phone'' \<notin> set [''username'', ''email'', ''address'']" by simp
  have e: "user_search ((search_request ''555'' ''phone'')
              \<lparr>GET := (GET (search_request ''555'' ''phone''))(''filter'' \<mapsto> ''all'')\<rparr>) sample_store =
           Rendered ''user.html'' (\<lparr>page_num = 1, object_list = [bob_user]\<rparr>, ''555'')"
    by code_simp
  from unknown_filter_is_all [OF a, of sample_store, THEN conjunct1] n
  have "user_search (search_request ''555'' ''phone'') sample_store =
        user_search ((search_request ''555'' ''phone'')
              \<lparr>GET := (GET (search_request ''555'' ''phone''))(''filter'' \<mapsto> ''all'')\<rparr>) sample_store"
    by blast
  then have 1: "user_search (search_request ''555'' ''phone'') sample_store =
     Rendered ''user.html'' (\<lparr>page_num = 1, object_list = [bob_user]\<rparr>, ''555'')"
    by (simp only: e)
  show ?thesis using 1 2 by (rule conjI)
qed

section \<open>Global search\<close>

lemma set_project_joined:
  "set (map fst (filter P (join_userprofile ps us))) =
     {u \<in> set us. (\<exists>p\<in>set ps. user_id p = uid u \<and> P (u, Some p)) \<or>
                   ((\<forall>p\<in>set ps. user_id p \<noteq> uid u) \<and> P (u, None))}"
proof (rule set_eqI)
  fix u
  have "u \<in> set (map fst (filter P (join_userprofile ps us))) \<longleftrightarrow>
        (\<exists>po. (u, po) \<in> set (join_userprofile ps us) \<and> P (u, po))"
    by force
  also have "\<dots> \<longleftrightarrow> u \<in> set us \<and>
        ((\<exists>p\<in>set ps. user_id p = uid u \<and> P (u, Some p)) \<or>
         ((\<forall>p\<in>set ps. user_id p \<noteq> uid u) \<and> P (u, None)))"
  proof -
    have "(\<exists>po. Q po) \<longleftrightarrow> Q None \<or> (\<exists>p. Q (Some p))" for Q :: "user_profile option \<Rightarrow> bool"
      by (metis option.exhaust)
    then show ?thesis
      by (simp add: in_join_userprofile) blast
  qed
  finally show "u \<in> set (map fst (filter P (join_userprofile ps us))) \<longleftrightarrow>
      u \<in> {u \<in> set us. (\<exists>p\<in>set ps. user_id p = uid u \<and> P (u, Some p)) \<or>
                   ((\<forall>p\<in>set ps. user_id p \<noteq> uid u) \<and> P (u, None))}"
    by simp
qed

lemma set_search_users:
  "set (search_users q s) =
     {u \<in> set (users s).
        icontains q (username u) \<or> icontains q (email u) \<or>
        (\<exists>p\<in>set (profiles s). user_id p = uid u \<and> icontains q (address p))}"
  unfolding search_users_def set_remdups set_project_joined
  by (auto simp: null_icontains_def userprofile__address_def)

lemma set_search_others:
  "set (search_books q s) =
     {b \<in> set (books s). icontains q (title b) \<or> icontains q (description b) \<or>
                          null_icontains q (author__name s b) \<or>
                          null_icontains q (category__name s b)}"
  "set (search_authors q s) = {a \<in> set (authors s). icontains q (author_name a)}"
  "set (search_categories q s) = {c \<in> set (categories s). icontains q (category_name c)}"
  by (auto simp: search_books_def search_authors_def search_categories_def)

lemma capped_distinct:
  "length (take 10 (search_books q s)) \<le> 10 \<and> distinct (take 10 (search_books q s))"
  "length (take 10 (search_users q s)) \<le> 10 \<and> distinct (take 10 (search_users q s))"
  "length (take 10 (search_authors q s)) \<le> 10 \<and> distinct (take 10 (search_authors q s))"
  "length (take 10 (search_categories q s)) \<le> 10 \<and> distinct (take 10 (search_categories q s))"
  by (simp_all add: search_books_def search_users_def search_authors_def search_categories_def)

lemma search_view:
  assumes "req_user request \<noteq> None"
    and "strip (get_or (GET request) ''q'' []) = q"
    and "get_or (GET request) ''type'' ''all'' = t"
  shows "search request s =
     Rendered ''search_results.html''
       \<lparr>ctx_query = q, ctx_search_type = t,
        ctx_books = (if q \<noteq> [] \<and> t \<in> set [''all'', ''books'']
                     then Some (take 10 (search_books q s)) else None),
        ctx_users = (if q \<noteq> [] \<and> t \<in> set [''all'', ''users'']
                     then Some (take 10 (search_users q s)) else None),
        ctx_authors = (if q \<noteq> [] \<and> t \<in> set [''all'', ''authors'']
                       then Some (take 10 (search_authors q s)) else None),
        ctx_categories = (if q \<noteq> [] \<and> t \<in> set [''all'', ''categories'']
                          then Some (take 10 (search_categories q s)) else None)\<rparr>"
  using assms(1) unfolding search_def Let_def assms(2,3) by simp


text \<open>
  C8. For an authenticated global search with stripped query \<open>q\<close> and type selector
  \<open>t\<close>: when \<open>q\<close> is empty no result is computed for any type; when \<open>q\<close> is not empty,
  the result of each selected type is the first ten rows of that type's matches with
  duplicates removed (so at most ten rows, none twice, each a match), and the result of a
  type that is not selected is absent. The \<open>page\<close> parameter has no influence. The
  matches are those of the filters in \<open>search\<close>: title, description, author name or
  category name for books; username, email or profile address for users; the name for
  authors and categories.
\<close>

theorem global_search_results:
  assumes "req_user request \<noteq> None"
    and "strip (get_or (GET request) ''q'' []) = q"
    and "get_or (GET request) ''type'' ''all'' = t"
  shows
   "(q = [] \<longrightarrow>
       search request s =
         Rendered ''search_results.html''
           \<lparr>ctx_query = q, ctx_search_type = t, ctx_books = None, ctx_users = None,
            ctx_authors = None, ctx_categories = None\<rparr>) \<and>
    (q \<noteq> [] \<longrightarrow>
       search request s =
         Rendered ''search_results.html''
           \<lparr>ctx_query = q, ctx_search_type = t,
            ctx_books = (if t \<in> set [''all'', ''books'']
                         then Some (take 10 (search_books q s)) else None),
            ctx_users = (if t \<in> set [''all'', ''users'']
                         then Some (take 10 (search_users q s)) else None),
            ctx_authors = (if t \<in> set [''all'', ''authors'']
                           then Some (take 10 (search_authors q s)) else None),
            ctx_categories = (if t \<in> set [''all'', ''categories'']
                              then Some (take 10 (search_categories q s)) else None)\<rparr>) \<and>
    search (request\<lparr>GET := (GET request)(''page'' := pg)\<rparr>) s = search request s \<and>
    (length (take 10 (search_books q s)) \<le> 10 \<and> distinct (take 10 (search_books q s))) \<and>
    (length (take 10 (search_users q s)) \<le> 10 \<and> distinct (take 10 (search_users q s))) \<and>
    (length (take 10 (search_authors q s)) \<le> 10 \<and> distinct (take 10 (search_authors q s))) \<and>
    (length (take 10 (search_categories q s)) \<le> 10 \<and>
     distinct (take 10 (search_categories q s))) \<and>
    set (search_books q s) =
      {b \<in> set (books s). icontains q (title b) \<or> icontains q (description b) \<or>
                           null_icontains q (author__name s b) \<or>
                           null_icontains q (category__name s b)} \<and>
    set (search_users q s) =
      {u \<in> set (users s).
         icontains q (username u) \<or> icontains q (email u) \<or>
         (\<exists>p\<in>set (profiles s). user_id p = uid u \<and> icontains q (address p))} \<and>
    set (search_authors q s) = {a \<in> set (authors s). icontains q (author_name a)} \<and>
    set (search_categories q s) = {c \<in> set (categories s). icontains q (category_name c)}"
proof -
  note v = search_view [OF assms, of s]
  have 1: "q = [] \<longrightarrow>
       search request s =
         Rendered ''search_results.html''
           \<lparr>ctx_query = q, ctx_search_type = t, ctx_books = None, ctx_users = None,
            ctx_authors = None, ctx_categories = None\<rparr>"
    unfolding v by simp
  have 2: "q \<noteq> [] \<longrightarrow>
       search request s =
         Rendered ''search_results.html''
           \<lparr>ctx_query = q, ctx_search_type = t,
            ctx_books = (if t \<in> set [''all'', ''books'']
                         then Some (take 10 (search_books q s)) else None),
            ctx_users = (if t \<in> set [''all'', ''users'']
                         then Some (take 10 (search_users q s)) else None),
            ctx_authors = (if t \<in> set [''all'', ''authors'']
                           then Some (take 10 (search_authors q s)) else None),
            ctx_categories = (if t \<in> set [''all'', ''categories'']
                              then Some (take 10 (search_categories q s)) else None)\<rparr>"
    unfolding v by simp
  have 3: "search (request\<lparr>GET := (GET request)(''page'' := pg)\<rparr>) s = search request s"
    by (simp add: search_def get_or_def)
  note c = capped_distinct [of q s] and o = set_search_others [of q s]
    and u = set_search_users [of q s]
  show ?thesis
    by (rule conjI [OF 1 conjI [OF 2 conjI [OF 3 conjI [OF c(1) conjI [OF c(2) conjI [OF c(3)
          conjI [OF c(4) conjI [OF o(1) conjI [OF u conjI [OF o(2) o(3)]]]]]]]]]])
qed

theorem global_search_results_witness:
  "search (search_request ''main'' ''users'') library_store =
     Rendered ''search_results.html''
       \<lparr>ctx_query = ''main'', ctx_search_type = ''users'', ctx_books = None,
        ctx_users = Some [bob_user], ctx_authors = None, ctx_categories = None\<rparr>"
proof -
  have a: "req_user (search_request ''main'' ''users'') \<noteq> None"
    by (simp add: search_request_def)
  have q: "strip (get_or (GET (search_request ''main'' ''users'')) ''q'' []) = ''main''"
    by (simp add: search_request_def get_or_def string_eval)
  have t: "get_or (GET (search_request ''main'' ''users'')) ''type'' ''all'' = ''users''"
    by (simp add: search_request_def get_or_def)
  have e: "take 10 (search_users ''main'' library_store) = [bob_user]"
    by code_simp
  have ne: "''main'' \<noteq> []" by simp
  from global_search_results [OF a q t, of library_store, THEN conjunct2, THEN conjunct1] ne
  have "search (search_request ''main'' ''users'') library_store =
         Rendered ''search_results.html''
           \<lparr>ctx_query = ''main'', ctx_search_type = ''users'',
            ctx_books = (if ''users'' \<in> set [''all'', ''books'']
                         then Some (take 10 (search_books ''main'' library_store)) else None),
            ctx_users = (if ''users'' \<in> set [''all'', ''users'']
                         then Some (take 10 (search_users ''main'' library_store)) else None),
            ctx_authors = (if ''users'' \<in> set [''all'', ''authors'']
                           then Some (take 10 (search_authors ''main'' library_store)) else None),
            ctx_categories = (if ''users'' \<in> set [''all'', ''categories'']
                              then Some (take 10 (search_categories ''main'' library_store)) else None)\<rparr>"
    by blast
  then show ?thesis by (simp add: e)
qed

text \<open>
  C6. The users filter of the global search has no \<open>userprofile__phone_number\<close> lookup.
  Bob's only field that contains "555" is the phone number of his profile: the per-entity
  search with \<open>filter=all\<close> finds him, the global search with \<open>type=all\<close> does not.
\<close>

theorem global_search_omits_phone_number:
  "search (search_request ''555'' ''all'') library_store =
     Rendered ''search_results.html''
       \<lparr>ctx_query = ''555'', ctx_search_type = ''all'', ctx_books = Some [],
        ctx_users = Some [], ctx_authors = Some [], ctx_categories = Some []\<rparr> \<and>
   user_search (search_request ''555'' ''all'') library_store =
     Rendered ''user.html'' (\<lparr>page_num = 1, object_list = [bob_user]\<rparr>, ''555'') \<and>
   phone_number bob_profile = ''555-0100'' \<and> user_id bob_profile = uid bob_user \<and>
   icontains ''555'' (phone_number bob_profile)"
  by code_simp

end
